theory Spec2Isabelle
  imports Complex_Main
begin

section \<open>Python values and exceptions\<close>

text \<open>
  The values \<^verbatim>\<open>json.loads\<close> can produce, which is what \<^verbatim>\<open>await resp.json()\<close> hands to
  \<^verbatim>\<open>load_whitelist\<close>: None, bool, int, float, str, list and dict with str keys. A dict is
  an association list read from the left; a float is the number it denotes (the program
  never computes with one).
\<close>

datatype pyval =
    PNone
  | PBool bool
  | PInt int
  | PFloat real
  | PStr string
  | PList "pyval list"
  | PDict "(string \<times> pyval) list"

text \<open>
  Exceptions. The first four are raised by statements of \<^verbatim>\<open>server.py\<close> itself (or by the
  Python operations it applies to its data); the last three stand for whatever the
  collaborators raise (boto3 while signing, aiohttp while fetching, the JSON decoder while
  reading the body) and carry a description of it.
\<close>

datatype exn =
    ValueError string
  | AssertionError
  | KeyError string
  | TypeError string
  | Boto3Error string
  | AiohttpError string
  | JSONError string

text \<open>\<^verbatim>\<open>s.lstrip(chars)\<close>: drop the longest prefix made of characters of \<open>chars\<close>.\<close>

definition lstrip :: "string \<Rightarrow> string \<Rightarrow> string" where
  "lstrip s chars = dropWhile (\<lambda>c. c \<in> set chars) s"

text \<open>
  \<^verbatim>\<open>obj[key]\<close> for a str key: a dict looks the key up and raises KeyError when it is
  missing; every other JSON value raises TypeError (a list or str wants an integer index,
  the rest is not subscriptable).
\<close>

fun getitem :: "pyval \<Rightarrow> string \<Rightarrow> exn + pyval" where
  "getitem (PDict kvs) k = (case map_of kvs k of None \<Rightarrow> Inl (KeyError k) | Some v \<Rightarrow> Inr v)"
| "getitem (PList xs) k = Inl (TypeError ''list indices must be integers or slices, not str'')"
| "getitem (PStr s) k = Inl (TypeError ''string indices must be integers'')"
| "getitem v k = Inl (TypeError ''object is not subscriptable'')"

text \<open>
  \<^verbatim>\<open>for w in obj\<close>: a list yields its elements, a dict its keys, a str its characters as
  one-character strings; None, bool and numbers are not iterable.
\<close>

fun iter :: "pyval \<Rightarrow> exn + pyval list" where
  "iter (PList xs) = Inr xs"
| "iter (PDict kvs) = Inr (map (\<lambda>kv. PStr (fst kv)) kvs)"
| "iter (PStr s) = Inr (map (\<lambda>c. PStr [c]) s)"
| "iter v = Inl (TypeError ''object is not iterable'')"

text \<open>Only a list or a dict among these values is unhashable.\<close>

fun hashable :: "pyval \<Rightarrow> bool" where
  "hashable (PList xs) = False"
| "hashable (PDict kvs) = False"
| "hashable v = True"

section \<open>The signed-URL issuer\<close>

text \<open>
  \<^verbatim>\<open>boto3.client('s3').generate_presigned_url(ClientMethod, Params, ExpiresIn, HttpMethod)\<close>
  is not part of the repository: it is a parameter of the model. It answers with a URL
  (\<open>Inr\<close>) or raises (\<open>Inl\<close>, with a description).
\<close>

type_synonym presigner =
  "string \<Rightarrow> (string \<rightharpoonup> pyval) \<Rightarrow> int \<Rightarrow> string \<Rightarrow> string + string"

text \<open>
  \<^verbatim>\<open>make_object_url\<close> (lines 22-56). \<^verbatim>\<open>api_args.update(api_kwargs)\<close> is \<open>++\<close> on maps:
  the extra arguments win over Bucket and Key.
\<close>

definition make_object_url ::
  "presigner \<Rightarrow> string \<Rightarrow> string \<Rightarrow> string \<Rightarrow> int \<Rightarrow> (string \<rightharpoonup> pyval) \<Rightarrow> exn + string" where
  "make_object_url s3 bucket_name object_name request_method expires_in api_kwargs =
     (let api_method =
        (if request_method \<in> set [''GET'', ''HEAD''] then Inr ''get_object''
         else if request_method \<in> set [''PUT'', ''POST''] then Inr ''put_object''
         else Inl (ValueError (''Unsupported request_method: '' @ request_method)))
      in case api_method of
           Inl e \<Rightarrow> Inl e
         | Inr m \<Rightarrow>
             (let api_args = [''Bucket'' \<mapsto> PStr bucket_name, ''Key'' \<mapsto> PStr object_name]
                               ++ api_kwargs
              in case s3 m api_args expires_in request_method of
                   Inl err \<Rightarrow> Inl (Boto3Error err)
                 | Inr url \<Rightarrow> Inr url))"

section \<open>The server and its request handler\<close>

text \<open>
  The attributes of a \<^verbatim>\<open>Server\<close>. \<^verbatim>\<open>expiry_time\<close> and \<^verbatim>\<open>whitelist_refresh_period\<close>
  are class attributes read from the environment. The elements of \<^verbatim>\<open>imei_whitelist\<close> are
  whatever values the document held under \<^verbatim>\<open>imei\<close>; the handler only ever asks whether a
  str is among them, and a str equals no value but the same str. (Python takes 1, 1.0 and
  True for one element of a set; the model keeps them apart, which no lookup of a str can
  tell.)
\<close>

record server =
  bucket_name :: string
  whitelist_object_name :: string
  imei_whitelist :: "pyval set"
  expiry_time :: int
  whitelist_refresh_period :: int

text \<open>\<^verbatim>\<open>Server.__init__\<close> (lines 68-74), with the two class attributes as arguments.\<close>

definition Server :: "int \<Rightarrow> int \<Rightarrow> string \<Rightarrow> string \<Rightarrow> server" where
  "Server URL_EXPIRY_TIME WHITELIST_REFRESH bucket whitelist_name =
     \<lparr>bucket_name = bucket, whitelist_object_name = whitelist_name, imei_whitelist = {},
      expiry_time = URL_EXPIRY_TIME, whitelist_refresh_period = WHITELIST_REFRESH\<rparr>"

text \<open>
  What the handler reads of an \<^verbatim>\<open>aiohttp.web.Request\<close>: \<^verbatim>\<open>request.method\<close> (the field
  \<open>http_method\<close>), \<^verbatim>\<open>request.path\<close> and the query parameters \<^verbatim>\<open>request.GET\<close>, a multi-dict
  kept as the list of (name, value) pairs in the order of the query string.
\<close>

record request =
  http_method :: string
  path :: string
  GET :: "(string \<times> string) list"

text \<open>\<^verbatim>\<open>key in multidict\<close> and \<^verbatim>\<open>multidict[key]\<close>, which is the first value under the key.\<close>

definition md_contains :: "(string \<times> string) list \<Rightarrow> string \<Rightarrow> bool" where
  "md_contains d k = (map_of d k \<noteq> None)"

definition md_getitem :: "(string \<times> string) list \<Rightarrow> string \<Rightarrow> exn + string" where
  "md_getitem d k = (case map_of d k of None \<Rightarrow> Inl (KeyError k) | Some v \<Rightarrow> Inr v)"

text \<open>
  The two answers the handler builds: \<^verbatim>\<open>aiohttp.web.Response(status=s, text=t)\<close> and
  \<^verbatim>\<open>aiohttp.web.HTTPFound(url)\<close>, the 302 response whose Location header is \<open>url\<close>.
\<close>

datatype response = Response int string | HTTPFound string

fun status :: "response \<Rightarrow> int" where
  "status (Response s t) = s"
| "status (HTTPFound url) = 302"

fun location :: "response \<Rightarrow> string option" where
  "location (Response s t) = None"
| "location (HTTPFound url) = Some url"

text \<open>Line 119: the local variable \<^verbatim>\<open>object_name\<close> of \<^verbatim>\<open>handle_request\<close>.\<close>

definition object_name :: "request \<Rightarrow> string" where
  "object_name request = lstrip (path request) ''/''"

text \<open>
  \<^verbatim>\<open>handle_request\<close> (lines 94-128). It has no \<^verbatim>\<open>await\<close> and assigns no attribute, so it
  is a function of the server and the request; the log calls have no bearing on the answer
  and are left out. A failed \<^verbatim>\<open>assert\<close> and an exception of \<^verbatim>\<open>make_object_url\<close> leave the
  handler as exceptions.
\<close>

definition handle_request :: "presigner \<Rightarrow> server \<Rightarrow> request \<Rightarrow> exn + response" where
  "handle_request s3 self request =
     (if \<not> md_contains (GET request) ''imei'' then Inr (Response 403 ''Forbidden'')
      else case md_getitem (GET request) ''imei'' of
        Inl e \<Rightarrow> Inl e
      | Inr imei \<Rightarrow>
          if PStr imei \<notin> imei_whitelist self then Inr (Response 401 ''Unauthorized'')
          else if object_name request = whitelist_object_name self
            then Inr (Response 403 ''Forbidden'')
          else if http_method request \<notin> set [''GET'', ''HEAD''] then Inl AssertionError
          else (case make_object_url s3 (bucket_name self) (object_name request)
                       (http_method request) (expiry_time self) Map.empty of
                  Inl e \<Rightarrow> Inl e
                | Inr url \<Rightarrow> Inr (HTTPFound url)))"

section \<open>The allowlist refresh\<close>

text \<open>
  aiohttp and asyncio are collaborators, not code of the repository. An awaited call is
  modelled by what it costs and what it gives: the seconds the coroutine stays suspended and
  the outcome, a value (\<open>Inr\<close>) or a raised exception (\<open>Inl\<close>, with a description).
  Of the \<^verbatim>\<open>ClientResponse\<close> that \<^verbatim>\<open>aiohttp.get\<close> returns, \<^verbatim>\<open>load_whitelist\<close> awaits
  \<^verbatim>\<open>json()\<close> and reads nothing else; the status code is carried along to show that.
\<close>

type_synonym 'a awaited = "real \<times> (string + 'a)"

record client_response =
  client_status :: int
  json :: "pyval awaited"

text \<open>What the outside world does during one refresh attempt.\<close>

record world =
  presign :: presigner
  aiohttp_get :: "string \<Rightarrow> client_response awaited"

text \<open>
  The event loop, as far as the refresh uses it: its clock \<^verbatim>\<open>loop.time()\<close> (the seconds
  are taken as exact numbers) and the timers that \<^verbatim>\<open>call_later\<close> has registered and that
  have not fired yet. The only callback ever registered is \<^verbatim>\<open>loop.create_task\<close> applied to
  a \<^verbatim>\<open>load_whitelist()\<close> coroutine.
\<close>

datatype coroutine = load_whitelist_coro

record timer =
  deadline :: real
  task :: coroutine

record event_loop =
  time :: real
  scheduled :: "timer list"

text \<open>\<^verbatim>\<open>loop.call_later(delay, loop.create_task, coro)\<close>: one more timer, due \<open>delay\<close> seconds
  after the moment of the call.\<close>

definition call_later :: "event_loop \<Rightarrow> int \<Rightarrow> coroutine \<Rightarrow> event_loop" where
  "call_later loop delay coro =
     loop\<lparr>scheduled := scheduled loop @ [\<lparr>deadline = time loop + of_int delay, task = coro\<rparr>]\<rparr>"

text \<open>
  \<^verbatim>\<open>set(w['imei'] for w in ...)\<close> consumes the generator entry by entry: each entry is
  subscripted with \<^verbatim>\<open>'imei'\<close> and the value is hashed to be added to the set, so the first
  entry that fails either step ends the construction with its exception.
\<close>

fun collect_imeis :: "pyval list \<Rightarrow> exn + pyval list" where
  "collect_imeis [] = Inr []"
| "collect_imeis (w # ws) =
     (case getitem w ''imei'' of
        Inl e \<Rightarrow> Inl e
      | Inr v \<Rightarrow>
          if \<not> hashable v then Inl (TypeError ''unhashable type'')
          else (case collect_imeis ws of Inl e \<Rightarrow> Inl e | Inr vs \<Rightarrow> Inr (v # vs)))"

text \<open>Line 84, right-hand side: \<^verbatim>\<open>set(w['imei'] for w in data['whitelist'])\<close>.\<close>

definition parse_whitelist :: "pyval \<Rightarrow> exn + pyval set" where
  "parse_whitelist data =
     (case getitem data ''whitelist'' of
        Inl e \<Rightarrow> Inl e
      | Inr wl \<Rightarrow>
          (case iter wl of
             Inl e \<Rightarrow> Inl e
           | Inr ws \<Rightarrow> (case collect_imeis ws of Inl e \<Rightarrow> Inl e | Inr vs \<Rightarrow> Inr (set vs))))"

text \<open>
  Lines 79-83: sign a 30-second GET URL for the allowlist object, fetch it, decode the body.
  The result is the time spent in the two \<^verbatim>\<open>await\<close>s and the document or the exception.
\<close>

definition fetch_document :: "world \<Rightarrow> server \<Rightarrow> real \<times> (exn + pyval)" where
  "fetch_document w self =
     (case make_object_url (presign w) (bucket_name self) (whitelist_object_name self)
             ''GET'' 30 Map.empty of
        Inl e \<Rightarrow> (0, Inl e)
      | Inr url \<Rightarrow>
          (case aiohttp_get w url of
             (t1, Inl err) \<Rightarrow> (t1, Inl (AiohttpError err))
           | (t1, Inr resp) \<Rightarrow>
               (case json resp of
                  (t2, Inl err) \<Rightarrow> (t1 + t2, Inl (JSONError err))
                | (t2, Inr data) \<Rightarrow> (t1 + t2, Inr data))))"

text \<open>The body of the \<^verbatim>\<open>try\<close> (lines 79-85): the new set, or the exception raised on the way.\<close>

definition try_block :: "world \<Rightarrow> server \<Rightarrow> real \<times> (exn + pyval set)" where
  "try_block w self =
     (case fetch_document w self of
        (dt, Inl e) \<Rightarrow> (dt, Inl e)
      | (dt, Inr data) \<Rightarrow> (dt, parse_whitelist data))"

text \<open>
  \<^verbatim>\<open>load_whitelist\<close> (lines 76-91). The attribute is assigned only when the whole right-hand
  side of line 84 has been evaluated; the bare \<^verbatim>\<open>except:\<close> catches every exception of the
  \<^verbatim>\<open>try\<close> and only logs; the \<^verbatim>\<open>finally\<close> registers the timer. The first component of
  the result is the exception that leaves the coroutine, if any.
\<close>

definition load_whitelist ::
  "world \<Rightarrow> server \<times> event_loop \<Rightarrow> exn option \<times> server \<times> event_loop" where
  "load_whitelist w = (\<lambda>(self, loop).
     case try_block w self of (dt, outcome) \<Rightarrow>
       (let self' = (case outcome of
                       Inr wl \<Rightarrow> self\<lparr>imei_whitelist := wl\<rparr>
                     | Inl e \<Rightarrow> self);
            loop' = loop\<lparr>time := time loop + dt\<rparr>
        in (None, self',
            call_later loop' (whitelist_refresh_period self') load_whitelist_coro)))"

text \<open>
  The event loop at work: when timers are pending, the one with the earliest deadline
  fires once the clock has reached it, \<^verbatim>\<open>create_task\<close> wraps its coroutine and the
  coroutine runs; with no timer pending nothing of the refresh is left to run.
\<close>

definition fire_next :: "world \<Rightarrow> server \<times> event_loop \<Rightarrow> server \<times> event_loop" where
  "fire_next w = (\<lambda>(self, loop).
     if scheduled loop = [] then (self, loop)
     else
       (let t = arg_min_list deadline (scheduled loop);
            loop1 = loop\<lparr>time := max (time loop) (deadline t),
                         scheduled := remove1 t (scheduled loop)\<rparr>
        in case task t of load_whitelist_coro \<Rightarrow> snd (load_whitelist w (self, loop1))))"

text \<open>
  The start of the program (lines 146-148): a fresh server, its first \<^verbatim>\<open>load_whitelist\<close>
  run to completion on a loop with no timer; then \<open>n\<close> timers fire, the \<open>i\<close>-th in the
  world \<open>ws i\<close>.
\<close>

definition startup ::
  "world \<Rightarrow> real \<Rightarrow> int \<Rightarrow> int \<Rightarrow> string \<Rightarrow> string \<Rightarrow> server \<times> event_loop" where
  "startup w t0 URL_EXPIRY_TIME WHITELIST_REFRESH AWS_BUCKET WHITELIST_NAME =
     snd (load_whitelist w
            (Server URL_EXPIRY_TIME WHITELIST_REFRESH AWS_BUCKET WHITELIST_NAME,
             \<lparr>time = t0, scheduled = []\<rparr>))"

fun refresh_loop :: "(nat \<Rightarrow> world) \<Rightarrow> nat \<Rightarrow> server \<times> event_loop \<Rightarrow> server \<times> event_loop" where
  "refresh_loop ws 0 st = st"
| "refresh_loop ws (Suc n) st = fire_next (ws n) (refresh_loop ws n st)"

section \<open>Responses under another status\<close>

text \<open>
  The world \<open>w\<close> with the status of every response it delivers set to \<open>code\<close>, all else as
  it is. It serves to state that the refresh does not read the status.
\<close>

definition with_status :: "int \<Rightarrow> world \<Rightarrow> world" where
  "with_status code w =
     w\<lparr>aiohttp_get := (\<lambda>url. case aiohttp_get w url of
                                (t, Inl err) \<Rightarrow> (t, Inl err)
                              | (t, Inr resp) \<Rightarrow> (t, Inr (resp\<lparr>client_status := code\<rparr>)))\<rparr>"

section \<open>The key derivation as the specification words it\<close>

text \<open>
  The specification describes the object key as the path with a single leading separator
  removed. This is that function, to be compared with \<open>object_name\<close>.
\<close>

fun strip_one_separator :: "string \<Rightarrow> string" where
  "strip_one_separator [] = []"
| "strip_one_separator (c # cs) = (if c = CHR ''/'' then cs else c # cs)"

section \<open>Sample data\<close>

text \<open>A signer that writes its arguments into the URL, a server and an allowlist document.\<close>

definition sample_s3 :: presigner where
  "sample_s3 api_method api_args expires_in verb =
     (case (api_args ''Bucket'', api_args ''Key'') of
        (Some (PStr b), Some (PStr k)) \<Rightarrow>
          Inr (''https://'' @ b @ ''.s3.amazonaws.com/'' @ k @ ''?op='' @ api_method
               @ ''&method='' @ verb
               @ (if expires_in = 86400 then ''&expires=86400'' else ''&expires=other''))
      | _ \<Rightarrow> Inl ''ParamValidationError'')"

definition sample_server :: server where
  "sample_server =
     \<lparr>bucket_name = ''fota'', whitelist_object_name = ''whitelist.json'',
      imei_whitelist = {PStr ''123456''}, expiry_time = 86400,
      whitelist_refresh_period = 300\<rparr>"

definition sample_document :: pyval where
  "sample_document =
     PDict [(''whitelist'',
             PList [PDict [(''imei'', PStr ''111''), (''model'', PStr ''a1'')],
                    PDict [(''owner'', PNone), (''imei'', PStr ''222'')]])]"

definition sample_world :: "int \<Rightarrow> pyval awaited \<Rightarrow> world" where
  "sample_world code body =
     \<lparr>presign = sample_s3,
      aiohttp_get = (\<lambda>url. (1/2, Inr \<lparr>client_status = code, json = body\<rparr>))\<rparr>"

text \<open>A signer without credentials, a world without network, and a loop with no timer.\<close>

definition failing_s3 :: presigner where
  "failing_s3 api_method api_args expires_in verb = Inl ''NoCredentialsError''"

definition offline_world :: world where
  "offline_world = \<lparr>presign = sample_s3, aiohttp_get = (\<lambda>url. (5, Inl ''ClientOSError''))\<rparr>"

definition idle_loop :: event_loop where
  "idle_loop = \<lparr>time = 0, scheduled = []\<rparr>"

section \<open>Facts about \<open>lstrip\<close> and the multi-dict\<close>

lemma lstrip_slash: "lstrip s ''/'' = dropWhile (\<lambda>c. c = CHR ''/'') s"
  by (simp add: lstrip_def)

lemma lstrip_replicate: "lstrip (replicate n CHR ''/'' @ p) ''/'' = lstrip p ''/''"
  by (induction n) (simp_all add: lstrip_def)

lemma lstrip_no_slash: "take 1 p \<noteq> ''/'' \<Longrightarrow> lstrip p ''/'' = p"
  by (cases p) (simp_all add: lstrip_def)

lemma lstrip_decompose: "\<exists>n. s = replicate n CHR ''/'' @ lstrip s ''/''"
proof (induction s)
  case Nil
  show ?case by (simp add: lstrip_def)
next
  case (Cons c s)
  show ?case
  proof (cases "c = CHR ''/''")
    case True
    from Cons obtain n where "s = replicate n CHR ''/'' @ lstrip s ''/''" ..
    then have "c # s = replicate (Suc n) CHR ''/'' @ lstrip (c # s) ''/''"
      using True by (simp add: lstrip_def)
    then show ?thesis ..
  next
    case False
    then have "c # s = replicate 0 CHR ''/'' @ lstrip (c # s) ''/''"
      by (simp add: lstrip_def)
    then show ?thesis ..
  qed
qed

lemma lstrip_head: "take 1 (lstrip s ''/'') \<noteq> ''/''"
  by (induction s) (simp_all add: lstrip_def)

lemma lstrip_strip_one: "take 2 s \<noteq> ''//'' \<Longrightarrow> lstrip s ''/'' = strip_one_separator s"
proof (cases s)
  case Nil
  then show ?thesis by (simp add: lstrip_def)
next
  case (Cons c cs)
  assume h: "take 2 s \<noteq> ''//''"
  show ?thesis
  proof (cases "c = CHR ''/''")
    case True
    with h Cons have "take 1 cs \<noteq> ''/''" by (cases cs) simp_all
    then have "lstrip cs ''/'' = cs" by (rule lstrip_no_slash)
    with True Cons show ?thesis by (simp add: lstrip_def)
  next
    case False
    with Cons show ?thesis by (simp add: lstrip_def)
  qed
qed

lemma md_contains_iff: "md_contains d k \<longleftrightarrow> k \<in> fst ` set d"
  by (simp add: md_contains_def map_of_eq_None_iff)

lemma md_getitem_contains: "md_getitem d k = Inr v \<Longrightarrow> md_contains d k"
  by (simp add: md_getitem_def md_contains_def split: option.splits)

lemma handle_request_path:
  assumes "object_name r1 = object_name r2" and "http_method r1 = http_method r2" and "GET r1 = GET r2"
  shows "handle_request s3 self r1 = handle_request s3 self r2"
  unfolding handle_request_def assms ..

section \<open>The decisions of the request handler\<close>

text \<open>
  C1. A request whose query string has no \<^verbatim>\<open>imei\<close> parameter is answered 403 Forbidden,
  whatever its method, its path, the allowlist and the signer.
\<close>

theorem missing_imei_forbidden:
  "''imei'' \<notin> fst ` set (GET request) \<Longrightarrow>
   handle_request s3 self request = Inr (Response 403 ''Forbidden'')
   \<and> (\<exists>resp. handle_request s3 self request = Inr resp \<and> status resp = 403)"
  by (simp add: handle_request_def md_contains_iff)

theorem missing_imei_forbidden_witness:
  "''imei'' \<notin> fst ` set (GET \<lparr>http_method = ''DELETE'', path = ''/firmware/v2.bin'',
                                GET = [(''id'', ''123456'')]\<rparr>)
   \<and> handle_request sample_s3 sample_server
        \<lparr>http_method = ''DELETE'', path = ''/firmware/v2.bin'', GET = [(''id'', ''123456'')]\<rparr>
      = Inr (Response 403 ''Forbidden'')"
  using missing_imei_forbidden
          [of "\<lparr>http_method = ''DELETE'', path = ''/firmware/v2.bin'', GET = [(''id'', ''123456'')]\<rparr>"
              sample_s3 sample_server]
  by simp

text \<open>
  C2. A request whose \<^verbatim>\<open>imei\<close> parameter (\<^verbatim>\<open>request.GET['imei']\<close>, the first value given)
  is not in the allowlist is answered 401 Unauthorized, whatever its path and method. A
  server that has just been constructed has an empty allowlist and so answers 401 to every
  request that carries the parameter.
\<close>

theorem unknown_imei_unauthorized:
  "md_getitem (GET request) ''imei'' = Inr imei \<Longrightarrow>
   (PStr imei \<notin> imei_whitelist self \<longrightarrow>
      handle_request s3 self request = Inr (Response 401 ''Unauthorized''))
   \<and> handle_request s3 (Server expiry period bucket name) request
       = Inr (Response 401 ''Unauthorized'')"
  by (auto simp add: handle_request_def md_contains_def md_getitem_def Server_def
        split: option.splits)

theorem unknown_imei_unauthorized_witness:
  "md_getitem (GET \<lparr>http_method = ''GET'', path = ''/firmware/v2.bin'',
                    GET = [(''imei'', ''999999'')]\<rparr>) ''imei'' = Inr ''999999''
   \<and> PStr ''999999'' \<notin> imei_whitelist sample_server
   \<and> handle_request sample_s3 sample_server
        \<lparr>http_method = ''GET'', path = ''/firmware/v2.bin'', GET = [(''imei'', ''999999'')]\<rparr>
      = Inr (Response 401 ''Unauthorized'')
   \<and> handle_request sample_s3 (Server 86400 300 ''fota'' ''whitelist.json'')
        \<lparr>http_method = ''GET'', path = ''/firmware/v2.bin'', GET = [(''imei'', ''999999'')]\<rparr>
      = Inr (Response 401 ''Unauthorized'')"
  using unknown_imei_unauthorized
          [of "\<lparr>http_method = ''GET'', path = ''/firmware/v2.bin'', GET = [(''imei'', ''999999'')]\<rparr>"
              "''999999''" sample_server sample_s3 86400 300 "''fota''" "''whitelist.json''"]
  by (simp add: md_getitem_def sample_server_def)

text \<open>
  C3. A request whose \<^verbatim>\<open>imei\<close> is in the allowlist and whose object key is the configured
  name of the allowlist object is answered 403 Forbidden: the handler never asks for a signed
  URL to the allowlist document.
\<close>

theorem whitelist_object_forbidden:
  "md_getitem (GET request) ''imei'' = Inr imei \<Longrightarrow>
   PStr imei \<in> imei_whitelist self \<Longrightarrow>
   object_name request = whitelist_object_name self \<Longrightarrow>
   handle_request s3 self request = Inr (Response 403 ''Forbidden'')"
  by (auto simp add: handle_request_def md_contains_def md_getitem_def split: option.splits)

theorem whitelist_object_forbidden_witness:
  "md_getitem (GET \<lparr>http_method = ''GET'', path = ''/whitelist.json'',
                    GET = [(''imei'', ''123456'')]\<rparr>) ''imei'' = Inr ''123456''
   \<and> PStr ''123456'' \<in> imei_whitelist sample_server
   \<and> object_name \<lparr>http_method = ''GET'', path = ''/whitelist.json'', GET = [(''imei'', ''123456'')]\<rparr>
       = whitelist_object_name sample_server
   \<and> handle_request sample_s3 sample_server
        \<lparr>http_method = ''GET'', path = ''/whitelist.json'', GET = [(''imei'', ''123456'')]\<rparr>
      = Inr (Response 403 ''Forbidden'')"
  using whitelist_object_forbidden
          [of "\<lparr>http_method = ''GET'', path = ''/whitelist.json'', GET = [(''imei'', ''123456'')]\<rparr>"
              "''123456''" sample_server sample_s3]
  by (simp add: md_getitem_def sample_server_def object_name_def lstrip_def)

text \<open>
  C4. For a GET or HEAD request whose \<^verbatim>\<open>imei\<close> is in the allowlist and whose object key
  is not the allowlist object's name, the handler's answer is fixed by one call of the signer,
  for the read capability on exactly the configured bucket and the derived key, with the
  configured expiry and the request's method: when the signer issues \<open>url\<close>, the answer is
  the 302 response whose Location is \<open>url\<close> (and when it raises, so does the handler).
\<close>

theorem authorized_request_redirects:
  assumes "http_method request \<in> {''GET'', ''HEAD''}"
    and "md_getitem (GET request) ''imei'' = Inr imei"
    and "PStr imei \<in> imei_whitelist self"
    and "object_name request \<noteq> whitelist_object_name self"
  shows "handle_request s3 self request =
           (case s3 ''get_object''
                   [''Bucket'' \<mapsto> PStr (bucket_name self), ''Key'' \<mapsto> PStr (object_name request)]
                   (expiry_time self) (http_method request) of
              Inl err \<Rightarrow> Inl (Boto3Error err)
            | Inr url \<Rightarrow> Inr (HTTPFound url))
         \<and> (s3 ''get_object''
                [''Bucket'' \<mapsto> PStr (bucket_name self), ''Key'' \<mapsto> PStr (object_name request)]
                (expiry_time self) (http_method request) = Inr url
             \<longrightarrow> (\<exists>resp. handle_request s3 self request = Inr resp
                        \<and> status resp = 302 \<and> location resp = Some url))"
proof -
  have "md_contains (GET request) ''imei''"
    using assms(2) by (rule md_getitem_contains)
  with assms have eq: "handle_request s3 self request =
           (case s3 ''get_object''
                   [''Bucket'' \<mapsto> PStr (bucket_name self), ''Key'' \<mapsto> PStr (object_name request)]
                   (expiry_time self) (http_method request) of
              Inl err \<Rightarrow> Inl (Boto3Error err)
            | Inr url \<Rightarrow> Inr (HTTPFound url))"
    by (auto simp add: handle_request_def make_object_url_def split: sum.splits)
  then show ?thesis by simp
qed

theorem authorized_request_redirects_witness:
  "http_method \<lparr>http_method = ''GET'', path = ''/firmware/v2.bin'', GET = [(''imei'', ''123456'')]\<rparr>
     \<in> {''GET'', ''HEAD''}
   \<and> md_getitem (GET \<lparr>http_method = ''GET'', path = ''/firmware/v2.bin'',
                      GET = [(''imei'', ''123456'')]\<rparr>) ''imei'' = Inr ''123456''
   \<and> PStr ''123456'' \<in> imei_whitelist sample_server
   \<and> object_name \<lparr>http_method = ''GET'', path = ''/firmware/v2.bin'', GET = [(''imei'', ''123456'')]\<rparr>
       \<noteq> whitelist_object_name sample_server
   \<and> handle_request sample_s3 sample_server
        \<lparr>http_method = ''GET'', path = ''/firmware/v2.bin'', GET = [(''imei'', ''123456'')]\<rparr>
      = Inr (HTTPFound
          ''https://fota.s3.amazonaws.com/firmware/v2.bin?op=get_object&method=GET&expires=86400'')"
  using authorized_request_redirects
          [of "\<lparr>http_method = ''GET'', path = ''/firmware/v2.bin'', GET = [(''imei'', ''123456'')]\<rparr>"
              "''123456''" sample_server sample_s3]
  by (simp add: md_getitem_def sample_server_def object_name_def lstrip_def sample_s3_def)

text \<open>
  C5. As stated (the key is the path with a single leading separator removed) the claim
  fails on a path that begins with two separators: \<^verbatim>\<open>lstrip('/')\<close> removes all of them.
\<close>

theorem single_separator_counterexample:
  "object_name \<lparr>http_method = ''GET'', path = ''//firmware/v2.bin'', GET = [(''imei'', ''123456'')]\<rparr>
     \<noteq> strip_one_separator
         (path \<lparr>http_method = ''GET'', path = ''//firmware/v2.bin'', GET = [(''imei'', ''123456'')]\<rparr>)
   \<and> object_name
        \<lparr>http_method = ''GET'', path = ''//firmware/v2.bin'', GET = [(''imei'', ''123456'')]\<rparr>
     = ''firmware/v2.bin''
   \<and> strip_one_separator
        (path \<lparr>http_method = ''GET'', path = ''//firmware/v2.bin'', GET = [(''imei'', ''123456'')]\<rparr>)
     = ''/firmware/v2.bin''
   \<and> handle_request sample_s3 sample_server
        \<lparr>http_method = ''GET'', path = ''//firmware/v2.bin'', GET = [(''imei'', ''123456'')]\<rparr>
     = Inr (HTTPFound
         ''https://fota.s3.amazonaws.com/firmware/v2.bin?op=get_object&method=GET&expires=86400'')"
  by (simp add: object_name_def lstrip_def handle_request_def md_contains_def md_getitem_def
        sample_server_def sample_s3_def make_object_url_def)

text \<open>
  C5, amended. The object key is the path with every leading separator removed and nothing
  else changed: the path is some number of \<^verbatim>\<open>/\<close> followed by the key, character for
  character, and the key does not begin with \<^verbatim>\<open>/\<close>. When the path does not begin with two
  separators this is the path with a single leading separator removed.
\<close>

theorem object_name_strips_leading_separators:
  "(\<exists>n. path request = replicate n CHR ''/'' @ object_name request)
   \<and> take 1 (object_name request) \<noteq> ''/''
   \<and> (take 2 (path request) \<noteq> ''//''
        \<longrightarrow> object_name request = strip_one_separator (path request))"
  unfolding object_name_def
  using lstrip_decompose[of "path request"] lstrip_head[of "path request"]
    lstrip_strip_one[of "path request"]
  by blast

theorem object_name_strips_leading_separators_witness:
  "take 2 (path \<lparr>http_method = ''GET'', path = ''/Firmware//v2/../v2.bin'', GET = []\<rparr>) \<noteq> ''//''
   \<and> object_name \<lparr>http_method = ''GET'', path = ''/Firmware//v2/../v2.bin'', GET = []\<rparr>
       = ''Firmware//v2/../v2.bin''
   \<and> strip_one_separator ''/Firmware//v2/../v2.bin'' = ''Firmware//v2/../v2.bin''"
  using object_name_strips_leading_separators
          [of "\<lparr>http_method = ''GET'', path = ''/Firmware//v2/../v2.bin'', GET = []\<rparr>"]
  by simp

text \<open>
  C10. As stated the claim fails twice at the rejection it promises for a path made of
  separators followed by the allowlist object's name: when the configured name itself begins
  with \<^verbatim>\<open>/\<close> the derived key has lost that separator too, differs from the name, and an
  allowlisted request is redirected (below: one separator before the name
  \<^verbatim>\<open>/whitelist.json\<close>); and a request whose \<^verbatim>\<open>imei\<close> is not allowlisted is answered 401
  before the path is looked at (below: two separators before the name \<^verbatim>\<open>whitelist.json\<close>).
\<close>

theorem slashes_then_whitelist_name_counterexample:
  "handle_request sample_s3 (sample_server\<lparr>whitelist_object_name := ''/whitelist.json''\<rparr>)
     \<lparr>http_method = ''GET'', path = ''//whitelist.json'', GET = [(''imei'', ''123456'')]\<rparr>
   = Inr (HTTPFound
       ''https://fota.s3.amazonaws.com/whitelist.json?op=get_object&method=GET&expires=86400'')
   \<and> handle_request sample_s3 sample_server
     \<lparr>http_method = ''GET'', path = ''//whitelist.json'', GET = [(''imei'', ''999999'')]\<rparr>
   = Inr (Response 401 ''Unauthorized'')"
  by (simp add: handle_request_def md_contains_def md_getitem_def object_name_def lstrip_def
        sample_server_def sample_s3_def make_object_url_def)

text \<open>
  C10, amended. The object key is the path without its leading separators. So \<open>n \<ge> 1\<close>
  separators followed by the allowlist object's name give the same key as one separator
  followed by it, and the request is answered 403 provided the configured name does not
  itself begin with a separator and the request does not carry an \<^verbatim>\<open>imei\<close> outside the
  allowlist (which is answered 401). Two requests that differ only in the number of leading
  separators of the path have the same key and get the same answer, with any signer.
\<close>

theorem leading_separators_irrelevant:
  "object_name request = dropWhile (\<lambda>c. c = CHR ''/'') (path request)
   \<and> (0 < n \<longrightarrow>
        object_name (request\<lparr>path := replicate n CHR ''/'' @ whitelist_object_name self\<rparr>)
          = object_name (request\<lparr>path := CHR ''/'' # whitelist_object_name self\<rparr>))
   \<and> (0 < n \<and> take 1 (whitelist_object_name self) \<noteq> ''/''
        \<and> \<not> (\<exists>imei. md_getitem (GET request) ''imei'' = Inr imei
                    \<and> PStr imei \<notin> imei_whitelist self)
       \<longrightarrow> handle_request s3 self
              (request\<lparr>path := replicate n CHR ''/'' @ whitelist_object_name self\<rparr>)
            = Inr (Response 403 ''Forbidden''))
   \<and> object_name (request\<lparr>path := replicate i CHR ''/'' @ p\<rparr>)
       = object_name (request\<lparr>path := replicate j CHR ''/'' @ p\<rparr>)
   \<and> handle_request s3 self (request\<lparr>path := replicate i CHR ''/'' @ p\<rparr>)
       = handle_request s3 self (request\<lparr>path := replicate j CHR ''/'' @ p\<rparr>)"
proof -
  have k: "\<And>i q. object_name (request\<lparr>path := replicate i CHR ''/'' @ q\<rparr>) = lstrip q ''/''"
    by (simp add: object_name_def lstrip_replicate)
  have a: "object_name request = dropWhile (\<lambda>c. c = CHR ''/'') (path request)"
    by (simp add: object_name_def lstrip_slash)
  have b: "object_name (request\<lparr>path := replicate n CHR ''/'' @ whitelist_object_name self\<rparr>)
             = object_name (request\<lparr>path := CHR ''/'' # whitelist_object_name self\<rparr>)"
    using k[of n "whitelist_object_name self"] k[of 1 "whitelist_object_name self"] by simp
  have c: "handle_request s3 self
             (request\<lparr>path := replicate n CHR ''/'' @ whitelist_object_name self\<rparr>)
           = Inr (Response 403 ''Forbidden'')"
    if "take 1 (whitelist_object_name self) \<noteq> ''/''"
      and "\<not> (\<exists>imei. md_getitem (GET request) ''imei'' = Inr imei
                  \<and> PStr imei \<notin> imei_whitelist self)"
  proof -
    have "object_name (request\<lparr>path := replicate n CHR ''/'' @ whitelist_object_name self\<rparr>)
            = whitelist_object_name self"
      using k[of n "whitelist_object_name self"] lstrip_no_slash[OF that(1)] by simp
    with that(2) show ?thesis
      by (auto simp add: handle_request_def md_contains_def md_getitem_def split: option.splits)
  qed
  have d: "object_name (request\<lparr>path := replicate i CHR ''/'' @ p\<rparr>)
             = object_name (request\<lparr>path := replicate j CHR ''/'' @ p\<rparr>)"
    by (simp add: k)
  have e: "handle_request s3 self (request\<lparr>path := replicate i CHR ''/'' @ p\<rparr>)
             = handle_request s3 self (request\<lparr>path := replicate j CHR ''/'' @ p\<rparr>)"
    by (rule handle_request_path) (simp_all add: d)
  from a b c d e show ?thesis by blast
qed

theorem leading_separators_irrelevant_witness:
  "(0::nat) < 3 \<and> take 1 (whitelist_object_name sample_server) \<noteq> ''/''
   \<and> \<not> (\<exists>imei. md_getitem (GET \<lparr>http_method = ''GET'', path = ''/'',
                                   GET = [(''imei'', ''123456'')]\<rparr>) ''imei'' = Inr imei
               \<and> PStr imei \<notin> imei_whitelist sample_server)
   \<and> handle_request sample_s3 sample_server
        \<lparr>http_method = ''GET'', path = ''///whitelist.json'', GET = [(''imei'', ''123456'')]\<rparr>
      = Inr (Response 403 ''Forbidden'')
   \<and> handle_request sample_s3 sample_server
        \<lparr>http_method = ''GET'', path = ''/firmware/v2.bin'', GET = [(''imei'', ''123456'')]\<rparr>
      = handle_request sample_s3 sample_server
        \<lparr>http_method = ''GET'', path = ''//firmware/v2.bin'', GET = [(''imei'', ''123456'')]\<rparr>"
proof -
  have h: "take 1 (whitelist_object_name sample_server) \<noteq> ''/''
     \<and> \<not> (\<exists>imei. md_getitem (GET \<lparr>http_method = ''GET'', path = ''/'',
                                   GET = [(''imei'', ''123456'')]\<rparr>) ''imei'' = Inr imei
               \<and> PStr imei \<notin> imei_whitelist sample_server)"
    by (simp add: sample_server_def md_getitem_def)
  have n: "replicate 3 CHR ''/'' = ''///''" "replicate 2 CHR ''/'' = ''//''"
    "replicate 1 CHR ''/'' = ''/''"
    by (simp_all add: numeral_3_eq_3 numeral_2_eq_2)
  have w: "whitelist_object_name sample_server = ''whitelist.json''"
    by (simp add: sample_server_def)
  show ?thesis
    using h n w
      leading_separators_irrelevant
        [where request = "\<lparr>http_method = ''GET'', path = ''/'', GET = [(''imei'', ''123456'')]\<rparr>"
           and self = sample_server and ?s3.0 = sample_s3 and n = 3 and i = 1 and j = 2
           and p = "''firmware/v2.bin''"]
    by simp
qed

section \<open>The contract of the signed-URL issuer\<close>

text \<open>
  C8. \<^verbatim>\<open>make_object_url\<close> raises its \<^verbatim>\<open>ValueError\<close> (unsupported request method) exactly
  when the method is none of GET, HEAD, PUT, POST. For GET and HEAD it asks the signer for
  \<^verbatim>\<open>get_object\<close>, for PUT and POST for \<^verbatim>\<open>put_object\<close>, and passes the signer's answer on
  (an exception raised inside the signer is the signer's, not an unsupported-method error).
\<close>

theorem unsupported_method_iff:
  "((\<exists>msg. make_object_url s3 b k m e kw = Inl (ValueError msg))
      \<longleftrightarrow> m \<notin> {''GET'', ''HEAD'', ''PUT'', ''POST''})
   \<and> (m \<notin> {''GET'', ''HEAD'', ''PUT'', ''POST''} \<longrightarrow>
        make_object_url s3 b k m e kw = Inl (ValueError (''Unsupported request_method: '' @ m)))
   \<and> (m \<in> {''GET'', ''HEAD''} \<longrightarrow>
        make_object_url s3 b k m e kw =
          (case s3 ''get_object'' ([''Bucket'' \<mapsto> PStr b, ''Key'' \<mapsto> PStr k] ++ kw) e m of
             Inl err \<Rightarrow> Inl (Boto3Error err)
           | Inr url \<Rightarrow> Inr url))
   \<and> (m \<in> {''PUT'', ''POST''} \<longrightarrow>
        make_object_url s3 b k m e kw =
          (case s3 ''put_object'' ([''Bucket'' \<mapsto> PStr b, ''Key'' \<mapsto> PStr k] ++ kw) e m of
             Inl err \<Rightarrow> Inl (Boto3Error err)
           | Inr url \<Rightarrow> Inr url))"
  by (auto simp add: make_object_url_def Let_def split: sum.splits)

theorem unsupported_method_iff_witness:
  "''DELETE'' \<notin> {''GET'', ''HEAD'', ''PUT'', ''POST''}
   \<and> make_object_url sample_s3 ''fota'' ''firmware/v2.bin'' ''DELETE'' 86400 Map.empty
       = Inl (ValueError ''Unsupported request_method: DELETE'')
   \<and> ''HEAD'' \<in> {''GET'', ''HEAD''}
   \<and> make_object_url sample_s3 ''fota'' ''firmware/v2.bin'' ''HEAD'' 86400 Map.empty
       = Inr ''https://fota.s3.amazonaws.com/firmware/v2.bin?op=get_object&method=HEAD&expires=86400''
   \<and> ''POST'' \<in> {''PUT'', ''POST''}
   \<and> make_object_url sample_s3 ''fota'' ''firmware/v2.bin'' ''POST'' 86400 Map.empty
       = Inr ''https://fota.s3.amazonaws.com/firmware/v2.bin?op=put_object&method=POST&expires=86400''"
  using unsupported_method_iff
          [of sample_s3 "''fota''" "''firmware/v2.bin''" "''DELETE''" 86400 Map.empty]
        unsupported_method_iff
          [of sample_s3 "''fota''" "''firmware/v2.bin''" "''HEAD''" 86400 Map.empty]
        unsupported_method_iff
          [of sample_s3 "''fota''" "''firmware/v2.bin''" "''POST''" 86400 Map.empty]
  by (simp add: sample_s3_def)


section \<open>One refresh attempt\<close>

lemma collect_imeis_set:
  "collect_imeis (map PDict es) = Inr vs \<Longrightarrow>
   set vs = {v. \<exists>e\<in>set es. map_of e ''imei'' = Some v}"
proof (induction es arbitrary: vs)
  case Nil
  then show ?case by simp
next
  case (Cons e es)
  from Cons.prems obtain v vs' where v: "map_of e ''imei'' = Some v"
    and vs': "collect_imeis (map PDict es) = Inr vs'" and vs: "vs = v # vs'"
    by (auto split: option.splits if_splits sum.splits)
  from Cons.IH[OF vs'] v vs show ?case by auto
qed

lemma collect_imeis_succeeds:
  "\<forall>e\<in>set es. \<exists>v. map_of e ''imei'' = Some v \<and> hashable v \<Longrightarrow>
   \<exists>vs. collect_imeis (map PDict es) = Inr vs"
  by (induction es) auto

lemma collect_imeis_fails_iff:
  "(\<exists>x. collect_imeis ws = Inl x) \<longleftrightarrow>
     (\<exists>entry\<in>set ws. (\<exists>x. getitem entry ''imei'' = Inl x)
                      \<or> (\<exists>v. getitem entry ''imei'' = Inr v \<and> \<not> hashable v))"
proof (induction ws)
  case Nil
  show ?case by simp
next
  case (Cons w ws)
  show ?case
  proof (cases "getitem w ''imei''")
    case (Inl x)
    then show ?thesis by simp
  next
    case (Inr v)
    show ?thesis
    proof (cases "hashable v")
      case True
      with Inr Cons.IH show ?thesis by (cases "collect_imeis ws") simp_all
    next
      case False
      with Inr show ?thesis by simp
    qed
  qed
qed

lemma parse_whitelist_fails_iff:
  "(\<exists>x. parse_whitelist data = Inl x) \<longleftrightarrow>
     (\<exists>x. getitem data ''whitelist'' = Inl x)
     \<or> (\<exists>wl. getitem data ''whitelist'' = Inr wl
           \<and> ((\<exists>x. iter wl = Inl x)
              \<or> (\<exists>ws. iter wl = Inr ws
                    \<and> (\<exists>entry\<in>set ws.
                          (\<exists>x. getitem entry ''imei'' = Inl x)
                          \<or> (\<exists>v. getitem entry ''imei'' = Inr v \<and> \<not> hashable v)))))"
proof (cases "getitem data ''whitelist''")
  case (Inl x)
  then show ?thesis by (simp add: parse_whitelist_def)
next
  case wl: (Inr wl)
  show ?thesis
  proof (cases "iter wl")
    case (Inl x)
    with wl show ?thesis by (simp add: parse_whitelist_def)
  next
    case (Inr ws)
    have "(\<exists>x. parse_whitelist data = Inl x) \<longleftrightarrow> (\<exists>x. collect_imeis ws = Inl x)"
      using wl Inr by (cases "collect_imeis ws") (simp_all add: parse_whitelist_def)
    with wl Inr show ?thesis by (simp add: collect_imeis_fails_iff)
  qed
qed

lemma getitem_fails_iff:
  "(\<exists>x. getitem v k = Inl x) \<longleftrightarrow> (\<forall>kvs. v = PDict kvs \<longrightarrow> map_of kvs k = None)"
  by (cases v) (auto split: option.splits)

lemma iter_fails_iff:
  "(\<exists>x. iter v = Inl x) \<longleftrightarrow>
     v = PNone \<or> (\<exists>b. v = PBool b) \<or> (\<exists>i. v = PInt i) \<or> (\<exists>r. v = PFloat r)"
  by (cases v) simp_all

lemma not_hashable_iff:
  "\<not> hashable v \<longleftrightarrow> (\<exists>xs. v = PList xs) \<or> (\<exists>kvs. v = PDict kvs)"
  by (cases v) simp_all

lemma fetch_document_snd:
  "snd (fetch_document w self) =
    (case make_object_url (presign w) (bucket_name self) (whitelist_object_name self)
            ''GET'' 30 Map.empty of
       Inl e \<Rightarrow> Inl e
     | Inr url \<Rightarrow>
         (case snd (aiohttp_get w url) of
            Inl err \<Rightarrow> Inl (AiohttpError err)
          | Inr resp \<Rightarrow>
              (case snd (json resp) of
                 Inl err \<Rightarrow> Inl (JSONError err)
               | Inr data \<Rightarrow> Inr data)))"
  by (auto simp add: fetch_document_def split: sum.splits prod.splits)

lemma try_block_snd:
  "snd (try_block w self) =
     (case snd (fetch_document w self) of Inl e \<Rightarrow> Inl e | Inr data \<Rightarrow> parse_whitelist data)"
  by (cases "fetch_document w self") (auto simp add: try_block_def split: sum.splits)

lemma load_whitelist_eq:
  "load_whitelist w (self, loop) =
     (None,
      (case snd (try_block w self) of Inr wl \<Rightarrow> self\<lparr>imei_whitelist := wl\<rparr> | Inl e \<Rightarrow> self),
      \<lparr>time = time loop + fst (try_block w self),
       scheduled = scheduled loop @
         [\<lparr>deadline = time loop + fst (try_block w self) + of_int (whitelist_refresh_period self),
           task = load_whitelist_coro\<rparr>]\<rparr>)"
  by (cases "try_block w self")
     (auto simp add: load_whitelist_def call_later_def Let_def split: sum.splits)

lemma with_status_try_block: "try_block (with_status code w) self = try_block w self"
proof -
  have "fetch_document (with_status code w) self = fetch_document w self"
    by (auto simp add: fetch_document_def with_status_def split: sum.splits prod.splits)
  then show ?thesis by (simp add: try_block_def)
qed

lemma sample_url:
  "make_object_url sample_s3 (bucket_name sample_server) (whitelist_object_name sample_server)
     ''GET'' 30 Map.empty
   = Inr ''https://fota.s3.amazonaws.com/whitelist.json?op=get_object&method=GET&expires=other''"
  by (simp add: make_object_url_def sample_s3_def sample_server_def)

lemma sample_fetch:
  "snd (fetch_document (sample_world code body) sample_server) =
     (case snd body of Inl err \<Rightarrow> Inl (JSONError err) | Inr data \<Rightarrow> Inr data)"
  by (simp add: fetch_document_snd sample_world_def sample_url)

text \<open>
  C6. As stated the claim counts a non-2xx response among the failures that leave the set
  alone. \<^verbatim>\<open>load_whitelist\<close> never reads the status: a 404 response whose body decodes to a
  well-formed document replaces the set like any other.
\<close>

theorem non_2xx_response_counterexample:
  "snd (aiohttp_get (sample_world 404 (1/4, Inr sample_document))
          ''https://fota.s3.amazonaws.com/whitelist.json?op=get_object&method=GET&expires=other'')
     = Inr \<lparr>client_status = 404, json = (1/4, Inr sample_document)\<rparr>
   \<and> imei_whitelist sample_server = {PStr ''123456''}
   \<and> imei_whitelist
        (fst (snd (load_whitelist (sample_world 404 (1/4, Inr sample_document))
                     (sample_server, idle_loop))))
     = {PStr ''111'', PStr ''222''}
   \<and> imei_whitelist
        (fst (snd (load_whitelist (sample_world 404 (1/4, Inr sample_document))
                     (sample_server, idle_loop))))
     \<noteq> imei_whitelist sample_server"
proof -
  have "snd (try_block (sample_world 404 (1/4, Inr sample_document)) sample_server)
          = Inr {PStr ''111'', PStr ''222''}"
    by (simp add: try_block_snd sample_fetch)
       (simp add: parse_whitelist_def sample_document_def)
  moreover have "{PStr ''111'', PStr ''222''} \<noteq> {PStr ''123456''}"
    by auto
  ultimately show ?thesis
    by (simp add: load_whitelist_eq) (simp add: sample_world_def sample_server_def)
qed

text \<open>
  C6, amended. Whenever the body of the \<^verbatim>\<open>try\<close> raises, \<^verbatim>\<open>load_whitelist\<close> returns
  normally and the server, its allowlist included, is what it was before the attempt; when
  it does not raise, the set it computed replaces the allowlist. The body raises exactly
  when signing raises, the fetch raises, the body of the response does not decode, or line
  84 raises on the decoded document; and line 84 raises exactly when the document cannot be
  subscripted with \<^verbatim>\<open>'whitelist'\<close> (it is not a dict, or a dict without that key), the value
  found there is not iterable (None, a bool, a number), or some element that iterating it
  yields cannot be subscripted with \<^verbatim>\<open>'imei'\<close> (it is not a dict, or a dict without that
  key) or holds a list or a dict there. The status code of the response plays no part: the
  outcome for a response is the same whatever its status, and setting every status to any
  code changes nothing of what \<^verbatim>\<open>load_whitelist\<close> does.
\<close>

theorem failed_refresh_keeps_whitelist:
  "(snd (try_block w self) = Inl e \<longrightarrow>
      fst (load_whitelist w (self, loop)) = None
      \<and> fst (snd (load_whitelist w (self, loop))) = self)
   \<and> (snd (try_block w self) = Inr S \<longrightarrow>
      fst (load_whitelist w (self, loop)) = None
      \<and> fst (snd (load_whitelist w (self, loop))) = self\<lparr>imei_whitelist := S\<rparr>)
   \<and> snd (try_block w self) =
       (case make_object_url (presign w) (bucket_name self) (whitelist_object_name self)
               ''GET'' 30 Map.empty of
          Inl x \<Rightarrow> Inl x
        | Inr url \<Rightarrow>
            (case snd (aiohttp_get w url) of
               Inl err \<Rightarrow> Inl (AiohttpError err)
             | Inr resp \<Rightarrow>
                 (case snd (json resp) of
                    Inl err \<Rightarrow> Inl (JSONError err)
                  | Inr data \<Rightarrow> parse_whitelist data)))
   \<and> (make_object_url (presign w) (bucket_name self) (whitelist_object_name self)
         ''GET'' 30 Map.empty = Inr url
       \<and> snd (aiohttp_get w url) = Inr (resp\<lparr>client_status := code\<rparr>)
       \<and> snd (json resp) = Inr data
       \<longrightarrow> snd (try_block w self) = parse_whitelist data)
   \<and> load_whitelist (with_status code w) (self, loop) = load_whitelist w (self, loop)
   \<and> ((\<exists>x. parse_whitelist data = Inl x) \<longleftrightarrow>
        (\<exists>x. getitem data ''whitelist'' = Inl x)
        \<or> (\<exists>wl. getitem data ''whitelist'' = Inr wl
              \<and> ((\<exists>x. iter wl = Inl x)
                 \<or> (\<exists>ws. iter wl = Inr ws
                       \<and> (\<exists>entry\<in>set ws.
                             (\<exists>x. getitem entry ''imei'' = Inl x)
                             \<or> (\<exists>v. getitem entry ''imei'' = Inr v \<and> \<not> hashable v))))))
   \<and> ((\<exists>x. getitem v k = Inl x) \<longleftrightarrow> (\<forall>kvs. v = PDict kvs \<longrightarrow> map_of kvs k = None))
   \<and> ((\<exists>x. iter v = Inl x) \<longleftrightarrow>
        v = PNone \<or> (\<exists>b. v = PBool b) \<or> (\<exists>i. v = PInt i) \<or> (\<exists>r. v = PFloat r))
   \<and> (\<not> hashable v \<longleftrightarrow> (\<exists>xs. v = PList xs) \<or> (\<exists>kvs. v = PDict kvs))"
proof -
  let ?sign = "make_object_url (presign w) (bucket_name self) (whitelist_object_name self)
                 ''GET'' 30 Map.empty"
  have a: "fst (load_whitelist w (self, loop)) = None
           \<and> fst (snd (load_whitelist w (self, loop))) = self"
    if "snd (try_block w self) = Inl e"
    using that by (simp add: load_whitelist_eq)
  have b: "fst (load_whitelist w (self, loop)) = None
           \<and> fst (snd (load_whitelist w (self, loop))) = self\<lparr>imei_whitelist := S\<rparr>"
    if "snd (try_block w self) = Inr S"
    using that by (simp add: load_whitelist_eq)
  have c: "snd (try_block w self) =
       (case ?sign of
          Inl x \<Rightarrow> Inl x
        | Inr url \<Rightarrow>
            (case snd (aiohttp_get w url) of
               Inl err \<Rightarrow> Inl (AiohttpError err)
             | Inr resp \<Rightarrow>
                 (case snd (json resp) of
                    Inl err \<Rightarrow> Inl (JSONError err)
                  | Inr data \<Rightarrow> parse_whitelist data)))"
    by (simp add: try_block_snd fetch_document_snd split: sum.splits)
  have d: "snd (try_block w self) = parse_whitelist data"
    if "?sign = Inr url" and "snd (aiohttp_get w url) = Inr (resp\<lparr>client_status := code\<rparr>)"
      and "snd (json resp) = Inr data"
    using that by (simp add: c)
  have e: "load_whitelist (with_status code w) (self, loop) = load_whitelist w (self, loop)"
    by (simp add: load_whitelist_def with_status_try_block)
  from a b c d e parse_whitelist_fails_iff [of data] getitem_fails_iff [of v k]
    iter_fails_iff [of v] not_hashable_iff [of v]
  show ?thesis by blast
qed

text \<open>
  The witness runs the attempt on an undecodable body behind a 200 and behind a 404, without
  credentials, without network, and on documents that are malformed each in its own way:
  the server is unchanged each time. It also runs a well-formed document with every status
  set to 404: the allowlist is replaced as it is behind a 200.
\<close>

theorem failed_refresh_keeps_whitelist_witness:
  "snd (try_block (sample_world 200 (1/4, Inl ''JSONDecodeError'')) sample_server)
     = Inl (JSONError ''JSONDecodeError'')
   \<and> fst (load_whitelist (sample_world 200 (1/4, Inl ''JSONDecodeError''))
            (sample_server, idle_loop)) = None
   \<and> fst (snd (load_whitelist (sample_world 200 (1/4, Inl ''JSONDecodeError''))
                  (sample_server, idle_loop))) = sample_server
   \<and> fst (snd (load_whitelist (sample_world 404 (1/4, Inl ''JSONDecodeError''))
                  (sample_server, idle_loop))) = sample_server
   \<and> fst (snd (load_whitelist
                  (sample_world 200 (1/4, Inr sample_document)\<lparr>presign := failing_s3\<rparr>)
                  (sample_server, idle_loop))) = sample_server
   \<and> fst (snd (load_whitelist offline_world (sample_server, idle_loop))) = sample_server
   \<and> fst (snd (load_whitelist
                   (sample_world 200
                      (1/4, Inr (PDict [(''devices'', PList [])])))
                   (sample_server, idle_loop))) = sample_server
   \<and> fst (snd (load_whitelist
                   (sample_world 200
                      (1/4, Inr (PList [PDict [(''imei'', PStr ''111'')]])))
                   (sample_server, idle_loop))) = sample_server
   \<and> fst (snd (load_whitelist
                   (sample_world 200
                      (1/4, Inr (PNone)))
                   (sample_server, idle_loop))) = sample_server
   \<and> fst (snd (load_whitelist
                   (sample_world 200
                      (1/4, Inr (PDict [(''whitelist'', PNone)])))
                   (sample_server, idle_loop))) = sample_server
   \<and> fst (snd (load_whitelist
                   (sample_world 200
                      (1/4, Inr (PDict [(''whitelist'', PInt 5)])))
                   (sample_server, idle_loop))) = sample_server
   \<and> fst (snd (load_whitelist
                   (sample_world 200
                      (1/4, Inr (PDict [(''whitelist'', PStr ''111'')])))
                   (sample_server, idle_loop))) = sample_server
   \<and> fst (snd (load_whitelist
                   (sample_world 200
                      (1/4, Inr (PDict [(''whitelist'', PDict [(''imei'', PStr ''111'')])])))
                   (sample_server, idle_loop))) = sample_server
   \<and> fst (snd (load_whitelist
                   (sample_world 200
                      (1/4, Inr (PDict [(''whitelist'', PList [PDict [(''imei'', PStr ''111'')],
                                                   PDict [(''id'', PStr ''222'')]])])))
                   (sample_server, idle_loop))) = sample_server
   \<and> fst (snd (load_whitelist
                   (sample_world 200
                      (1/4, Inr (PDict [(''whitelist'', PList [PDict [(''imei'', PStr ''111'')], PStr ''222''])])))
                   (sample_server, idle_loop))) = sample_server
   \<and> fst (snd (load_whitelist
                   (sample_world 200
                      (1/4, Inr (PDict [(''whitelist'', PList [PDict [(''imei'', PList [PStr ''111''])]])])))
                   (sample_server, idle_loop))) = sample_server
   \<and> load_whitelist (with_status 404 (sample_world 200 (1/4, Inr sample_document)))
         (sample_server, idle_loop)
       = load_whitelist (sample_world 200 (1/4, Inr sample_document))
           (sample_server, idle_loop)
   \<and> fst (snd (load_whitelist (with_status 404 (sample_world 200 (1/4, Inr sample_document)))
                  (sample_server, idle_loop)))
       = sample_server\<lparr>imei_whitelist := {PStr ''111'', PStr ''222''}\<rparr>"
proof -
  note T = failed_refresh_keeps_whitelist [where self = sample_server and loop = idle_loop]
  note keeps = T [THEN conjunct1, THEN mp]
  note replaces = T [THEN conjunct2, THEN conjunct1, THEN mp]
  have outcome: "snd (try_block w sample_server) =
       (case make_object_url (presign w) (bucket_name sample_server)
               (whitelist_object_name sample_server) ''GET'' 30 Map.empty of
          Inl x \<Rightarrow> Inl x
        | Inr url \<Rightarrow>
            (case snd (aiohttp_get w url) of
               Inl err \<Rightarrow> Inl (AiohttpError err)
             | Inr resp \<Rightarrow>
                 (case snd (json resp) of
                    Inl err \<Rightarrow> Inl (JSONError err)
                  | Inr data \<Rightarrow> parse_whitelist data)))" for w
    by (rule T [where w = w, THEN conjunct2, THEN conjunct2, THEN conjunct1])
  have status_free: "load_whitelist (with_status code w) (sample_server, idle_loop)
                       = load_whitelist w (sample_server, idle_loop)" for code w
    by (rule T [where w = w and code = code, THEN conjunct2, THEN conjunct2, THEN conjunct2,
                THEN conjunct2, THEN conjunct1])
  note raises = T [THEN conjunct2, THEN conjunct2, THEN conjunct2, THEN conjunct2,
                   THEN conjunct2, THEN conjunct1]
  have u: "make_object_url (presign (sample_world code body)) (bucket_name sample_server)
             (whitelist_object_name sample_server) ''GET'' 30 Map.empty
           = Inr ''https://fota.s3.amazonaws.com/whitelist.json?op=get_object&method=GET&expires=other''"
    for code body
    using sample_url by (simp add: sample_world_def)
  have g: "snd (aiohttp_get (sample_world code body) url)
             = Inr \<lparr>client_status = code, json = body\<rparr>" for code body url
    by (simp add: sample_world_def)
  have t: "snd (try_block (sample_world code body) sample_server)
             = (case snd body of Inl err \<Rightarrow> Inl (JSONError err)
                | Inr data \<Rightarrow> parse_whitelist data)" for code body
    by (simp add: outcome [of "sample_world code body"] u g)
  have t1: "snd (try_block (sample_world code (1/4, Inl ''JSONDecodeError'')) sample_server)
              = Inl (JSONError ''JSONDecodeError'')" for code
    by (simp add: t)
  note c1 = keeps [OF t1]
  let ?W2 = "sample_world 200 (1/4, Inr sample_document)\<lparr>presign := failing_s3\<rparr>"
  have "snd (try_block ?W2 sample_server) = Inl (Boto3Error ''NoCredentialsError'')"
    unfolding outcome [of ?W2]
    by (simp add: make_object_url_def failing_s3_def)
  note c2 = keeps [OF this]
  have "snd (try_block offline_world sample_server) = Inl (AiohttpError ''ClientOSError'')"
    unfolding outcome [of offline_world]
    using sample_url by (simp add: offline_world_def)
  note c3 = keeps [OF this]
  have F: "fst (snd (load_whitelist (sample_world 200 (1/4, Inr doc))
                       (sample_server, idle_loop))) = sample_server"
    if "\<exists>x. parse_whitelist doc = Inl x" for doc
  proof -
    from that obtain x where "parse_whitelist doc = Inl x" ..
    then have "snd (try_block (sample_world 200 (1/4, Inr doc)) sample_server) = Inl x"
      by (simp add: t)
    from keeps [OF this] show ?thesis by (elim conjE)
  qed
  have c4:
    "fst (snd (load_whitelist
                 (sample_world 200
                    (1/4, Inr (PDict [(''devices'', PList [])])))
                 (sample_server, idle_loop))) = sample_server"
    "fst (snd (load_whitelist
                 (sample_world 200
                    (1/4, Inr (PList [PDict [(''imei'', PStr ''111'')]])))
                 (sample_server, idle_loop))) = sample_server"
    "fst (snd (load_whitelist
                 (sample_world 200
                    (1/4, Inr (PNone)))
                 (sample_server, idle_loop))) = sample_server"
    "fst (snd (load_whitelist
                 (sample_world 200
                    (1/4, Inr (PDict [(''whitelist'', PNone)])))
                 (sample_server, idle_loop))) = sample_server"
    "fst (snd (load_whitelist
                 (sample_world 200
                    (1/4, Inr (PDict [(''whitelist'', PInt 5)])))
                 (sample_server, idle_loop))) = sample_server"
    "fst (snd (load_whitelist
                 (sample_world 200
                    (1/4, Inr (PDict [(''whitelist'', PStr ''111'')])))
                 (sample_server, idle_loop))) = sample_server"
    "fst (snd (load_whitelist
                 (sample_world 200
                    (1/4, Inr (PDict [(''whitelist'', PDict [(''imei'', PStr ''111'')])])))
                 (sample_server, idle_loop))) = sample_server"
    "fst (snd (load_whitelist
                 (sample_world 200
                    (1/4, Inr (PDict [(''whitelist'', PList [PDict [(''imei'', PStr ''111'')],
                                                 PDict [(''id'', PStr ''222'')]])])))
                 (sample_server, idle_loop))) = sample_server"
    "fst (snd (load_whitelist
                 (sample_world 200
                    (1/4, Inr (PDict [(''whitelist'', PList [PDict [(''imei'', PStr ''111'')], PStr ''222''])])))
                 (sample_server, idle_loop))) = sample_server"
    "fst (snd (load_whitelist
                 (sample_world 200
                    (1/4, Inr (PDict [(''whitelist'', PList [PDict [(''imei'', PList [PStr ''111''])]])])))
                 (sample_server, idle_loop))) = sample_server"
    by (simp_all add: F raises)
  have p: "parse_whitelist sample_document = Inr {PStr ''111'', PStr ''222''}"
    by (simp add: parse_whitelist_def sample_document_def)
  have "snd (try_block (sample_world 200 (1/4, Inr sample_document)) sample_server)
          = Inr {PStr ''111'', PStr ''222''}"
    by (simp add: t p)
  note c5 = replaces [OF this]
  note c6 = status_free [of 404 "sample_world 200 (1/4, Inr sample_document)"]
  from t1 [of 200] c1 [of 200] c1 [of 404] c2 c3 c4 c5 c6 show ?thesis
    by simp
qed

text \<open>
  C7. When the fetched document is a dict whose \<^verbatim>\<open>whitelist\<close> is a list of dicts and the
  attempt succeeds, the server's allowlist afterwards is exactly the set of the values the
  entries hold under \<^verbatim>\<open>imei\<close>: nothing of the former set is kept, nothing else of an
  entry is read. The attempt does succeed when every entry holds a hashable value (a str, a
  number, a bool, None) under \<^verbatim>\<open>imei\<close>.
\<close>

theorem successful_refresh_replaces_whitelist:
  assumes "snd (fetch_document w self) = Inr (PDict d)"
    and "map_of d ''whitelist'' = Some (PList (map PDict entries))"
  shows "(snd (try_block w self) = Inr S \<longrightarrow>
            S = {v. \<exists>e\<in>set entries. map_of e ''imei'' = Some v}
            \<and> fst (load_whitelist w (self, loop)) = None
            \<and> imei_whitelist (fst (snd (load_whitelist w (self, loop))))
                = {v. \<exists>e\<in>set entries. map_of e ''imei'' = Some v})
         \<and> ((\<forall>e\<in>set entries. \<exists>v. map_of e ''imei'' = Some v \<and> hashable v)
              \<longrightarrow> (\<exists>S. snd (try_block w self) = Inr S))"
proof -
  have p: "snd (try_block w self) =
      (case collect_imeis (map PDict entries) of Inl e \<Rightarrow> Inl e | Inr vs \<Rightarrow> Inr (set vs))"
    using assms by (simp add: try_block_snd parse_whitelist_def)
  have a: "S = {v. \<exists>e\<in>set entries. map_of e ''imei'' = Some v}
           \<and> fst (load_whitelist w (self, loop)) = None
           \<and> imei_whitelist (fst (snd (load_whitelist w (self, loop))))
               = {v. \<exists>e\<in>set entries. map_of e ''imei'' = Some v}"
    if ok: "snd (try_block w self) = Inr S"
  proof -
    from ok p obtain vs where vs: "collect_imeis (map PDict entries) = Inr vs"
      and S: "S = set vs"
      by (auto split: sum.splits)
    from collect_imeis_set[OF vs] S
    have "S = {v. \<exists>e\<in>set entries. map_of e ''imei'' = Some v}"
      by simp
    with ok show ?thesis by (simp add: load_whitelist_eq)
  qed
  have b: "\<exists>S. snd (try_block w self) = Inr S"
    if "\<forall>e\<in>set entries. \<exists>v. map_of e ''imei'' = Some v \<and> hashable v"
  proof -
    from collect_imeis_succeeds[OF that]
    obtain vs where "collect_imeis (map PDict entries) = Inr vs" ..
    with p show ?thesis by simp
  qed
  from a b show ?thesis by blast
qed

theorem successful_refresh_replaces_whitelist_witness:
  "snd (fetch_document (sample_world 200 (1/4, Inr sample_document)) sample_server)
     = Inr (PDict [(''whitelist'',
                    PList (map PDict [[(''imei'', PStr ''111''), (''model'', PStr ''a1'')],
                                      [(''owner'', PNone), (''imei'', PStr ''222'')]]))])
   \<and> imei_whitelist sample_server = {PStr ''123456''}
   \<and> imei_whitelist
        (fst (snd (load_whitelist (sample_world 200 (1/4, Inr sample_document))
                     (sample_server, idle_loop))))
     = {PStr ''111'', PStr ''222''}"
proof -
  let ?W = "sample_world 200 (1/4, Inr sample_document)"
  let ?es = "[[(''imei'', PStr ''111''), (''model'', PStr ''a1'')],
              [(''owner'', PNone), (''imei'', PStr ''222'')]]"
  let ?d = "[(''whitelist'', PList (map PDict ?es))]"
  have h1: "snd (fetch_document ?W sample_server) = Inr (PDict ?d)"
    by (simp add: sample_fetch sample_document_def)
  have h2: "map_of ?d ''whitelist'' = Some (PList (map PDict ?es))"
    by simp
  have h3: "\<forall>e\<in>set ?es. \<exists>v. map_of e ''imei'' = Some v \<and> hashable v"
    by simp
  note T = successful_refresh_replaces_whitelist [OF h1 h2, where loop = idle_loop]
  have "\<exists>S. snd (try_block ?W sample_server) = Inr S"
    using T [THEN conjunct2, THEN mp, OF h3] .
  then obtain S where S: "snd (try_block ?W sample_server) = Inr S" ..
  have "imei_whitelist (fst (snd (load_whitelist ?W (sample_server, idle_loop))))
          = {v. \<exists>e\<in>set ?es. map_of e ''imei'' = Some v}"
    using T [of S, THEN conjunct1, THEN mp, OF S] by (elim conjE)
  also have "\<dots> = {PStr ''111'', PStr ''222''}"
    by auto
  finally have r: "imei_whitelist (fst (snd (load_whitelist ?W (sample_server, idle_loop))))
          = {PStr ''111'', PStr ''222''}" .
  have i: "imei_whitelist sample_server = {PStr ''123456''}"
    by (simp add: sample_server_def)
  from h1 i r show ?thesis by (intro conjI)
qed

section \<open>The refresh loop\<close>

lemma startup_eq:
  "startup w t0 e r b nm = (self, loop) \<Longrightarrow>
     whitelist_refresh_period self = r \<and>
     scheduled loop = [\<lparr>deadline = time loop + of_int r, task = load_whitelist_coro\<rparr>]"
  by (auto simp add: startup_def load_whitelist_eq Server_def split: sum.splits)

lemma fire_next_single:
  assumes "scheduled loop =
             [\<lparr>deadline = time loop + of_int (whitelist_refresh_period self),
               task = load_whitelist_coro\<rparr>]"
  shows "fire_next w (self, loop) =
     snd (load_whitelist w
            (self, loop\<lparr>time := max (time loop)
                                   (time loop + of_int (whitelist_refresh_period self)),
                        scheduled := []\<rparr>))"
  using assms by (simp add: fire_next_def Let_def)

lemma fire_next_inv:
  assumes "scheduled loop =
             [\<lparr>deadline = time loop + of_int (whitelist_refresh_period self),
               task = load_whitelist_coro\<rparr>]"
    and "fire_next w (self, loop) = (self', loop')"
  shows "whitelist_refresh_period self' = whitelist_refresh_period self \<and>
     scheduled loop' =
       [\<lparr>deadline = time loop' + of_int (whitelist_refresh_period self),
         task = load_whitelist_coro\<rparr>]"
  using assms(2) unfolding fire_next_single[OF assms(1)]
  by (auto simp add: load_whitelist_eq split: sum.splits)

lemma refresh_loop_inv:
  "refresh_loop ws n (startup w t0 e r b nm) = (self, loop) \<Longrightarrow>
     whitelist_refresh_period self = r \<and>
     scheduled loop = [\<lparr>deadline = time loop + of_int r, task = load_whitelist_coro\<rparr>]"
proof (induction n arbitrary: self loop)
  case 0
  then show ?case using startup_eq by simp
next
  case (Suc n)
  obtain s l where sl: "refresh_loop ws n (startup w t0 e r b nm) = (s, l)"
    by fastforce
  from Suc.IH[OF sl] have p: "whitelist_refresh_period s = r"
    and q: "scheduled l =
              [\<lparr>deadline = time l + of_int (whitelist_refresh_period s),
                task = load_whitelist_coro\<rparr>]"
    by simp_all
  from Suc.prems sl have "fire_next (ws n) (s, l) = (self, loop)" by simp
  from fire_next_inv[OF q this] p show ?case by simp
qed

lemma Server_sel:
  "bucket_name (Server e r b n) = b" "whitelist_object_name (Server e r b n) = n"
  "imei_whitelist (Server e r b n) = {}" "expiry_time (Server e r b n) = e"
  "whitelist_refresh_period (Server e r b n) = r"
  by (simp_all add: Server_def)

lemma sample_world_fetch:
  "fetch_document (sample_world code body) self =
     (1/2 + fst body, case snd body of Inl err \<Rightarrow> Inl (JSONError err) | Inr data \<Rightarrow> Inr data)"
  by (cases body)
     (simp add: fetch_document_def make_object_url_def sample_s3_def sample_world_def
        split: sum.splits)

lemma offline_world_fetch:
  "fetch_document offline_world self = (5, Inl (AiohttpError ''ClientOSError''))"
  by (simp add: fetch_document_def make_object_url_def sample_s3_def offline_world_def)

text \<open>
  C9. Every execution of \<^verbatim>\<open>load_whitelist\<close>, whatever the outcome of its \<^verbatim>\<open>try\<close>,
  returns normally having added exactly one timer to the loop, for \<^verbatim>\<open>load_whitelist\<close>
  again, due \<^verbatim>\<open>whitelist_refresh_period\<close> seconds after the clock value at which the
  attempt ended. Consequently, from the start of the program on and after any number \<open>n\<close>
  of fired timers, in whatever worlds the attempts ran, exactly one such timer is pending,
  due one period after the end of the latest attempt, and the next firing is one more
  execution of \<^verbatim>\<open>load_whitelist\<close>: the chain of attempts has no last element.
\<close>

theorem refresh_always_rescheduled:
  "(case load_whitelist w (self, loop) of (raised, self', loop') \<Rightarrow>
      raised = None
      \<and> time loop' = time loop + fst (try_block w self)
      \<and> scheduled loop' = scheduled loop @
           [\<lparr>deadline = time loop' + of_int (whitelist_refresh_period self),
             task = load_whitelist_coro\<rparr>])
   \<and> (case refresh_loop ws n (startup w0 t0 expiry period bucket name) of (self', loop') \<Rightarrow>
        scheduled loop' = [\<lparr>deadline = time loop' + of_int period, task = load_whitelist_coro\<rparr>]
        \<and> refresh_loop ws (Suc n) (startup w0 t0 expiry period bucket name)
            = snd (load_whitelist (ws n)
                     (self', loop'\<lparr>time := max (time loop') (time loop' + of_int period),
                                   scheduled := []\<rparr>)))"
proof -
  have a: "case load_whitelist w (self, loop) of (raised, self', loop') \<Rightarrow>
      raised = None
      \<and> time loop' = time loop + fst (try_block w self)
      \<and> scheduled loop' = scheduled loop @
           [\<lparr>deadline = time loop' + of_int (whitelist_refresh_period self),
             task = load_whitelist_coro\<rparr>]"
    by (simp add: load_whitelist_eq)
  obtain s l where sl: "refresh_loop ws n (startup w0 t0 expiry period bucket name) = (s, l)"
    by fastforce
  from refresh_loop_inv[OF sl] have p: "whitelist_refresh_period s = period"
    and q: "scheduled l = [\<lparr>deadline = time l + of_int period, task = load_whitelist_coro\<rparr>]"
    by simp_all
  from q p have q': "scheduled l =
      [\<lparr>deadline = time l + of_int (whitelist_refresh_period s), task = load_whitelist_coro\<rparr>]"
    by simp
  have "refresh_loop ws (Suc n) (startup w0 t0 expiry period bucket name)
          = fire_next (ws n) (s, l)"
    using sl by simp
  also have "\<dots> = snd (load_whitelist (ws n)
                       (s, l\<lparr>time := max (time l) (time l + of_int period), scheduled := []\<rparr>))"
    using fire_next_single[OF q'] p by simp
  finally have b:
    "case refresh_loop ws n (startup w0 t0 expiry period bucket name) of (self', loop') \<Rightarrow>
        scheduled loop' = [\<lparr>deadline = time loop' + of_int period, task = load_whitelist_coro\<rparr>]
        \<and> refresh_loop ws (Suc n) (startup w0 t0 expiry period bucket name)
            = snd (load_whitelist (ws n)
                     (self', loop'\<lparr>time := max (time loop') (time loop' + of_int period),
                                   scheduled := []\<rparr>))"
    using sl q by simp
  from a b show ?thesis by blast
qed

text \<open>
  A run: the first attempt cannot decode the body and ends at 0.75; the timer fires at
  300.75 and the second attempt succeeds at 301.5; the next timer fires at 601.5 and the
  third attempt finds no network and ends at 606.5, leaving a timer due at 906.5.
\<close>

theorem refresh_always_rescheduled_witness:
  "refresh_loop
     (\<lambda>i. if i = 0 then sample_world 200 (1/4, Inr sample_document) else offline_world) 2
     (startup (sample_world 200 (1/4, Inl ''JSONDecodeError'')) 0 86400 300
        ''fota'' ''whitelist.json'')
   = (\<lparr>bucket_name = ''fota'', whitelist_object_name = ''whitelist.json'',
       imei_whitelist = {PStr ''111'', PStr ''222''}, expiry_time = 86400,
       whitelist_refresh_period = 300\<rparr>,
      \<lparr>time = 606 + 1/2,
       scheduled = [\<lparr>deadline = 906 + 1/2, task = load_whitelist_coro\<rparr>]\<rparr>)"
proof -
  let ?ws = "\<lambda>i::nat. if i = 0 then sample_world 200 (1/4, Inr sample_document)
                       else offline_world"
  let ?st = "startup (sample_world 200 (1/4, Inl ''JSONDecodeError'')) 0 86400 300
               ''fota'' ''whitelist.json''"
  let ?srv = "Server 86400 300 ''fota'' ''whitelist.json''"
  note T = refresh_always_rescheduled
             [where ws = ?ws and ?w0.0 = "sample_world 200 (1/4, Inl ''JSONDecodeError'')"
                and ?t0.0 = 0 and expiry = 86400 and period = 300
                and bucket = "''fota''" and name = "''whitelist.json''", THEN conjunct2]
  have s0: "?st = (?srv, \<lparr>time = 3/4,
                           scheduled = [\<lparr>deadline = 300 + 3/4, task = load_whitelist_coro\<rparr>]\<rparr>)"
    by (simp add: startup_def load_whitelist_eq try_block_def sample_world_fetch Server_sel)
  have p: "parse_whitelist sample_document = Inr {PStr ''111'', PStr ''222''}"
    by (simp add: parse_whitelist_def sample_document_def)
  have s1: "refresh_loop ?ws (Suc 0) ?st =
              (?srv\<lparr>imei_whitelist := {PStr ''111'', PStr ''222''}\<rparr>,
               \<lparr>time = 301 + 1/2,
                scheduled = [\<lparr>deadline = 601 + 1/2, task = load_whitelist_coro\<rparr>]\<rparr>)"
    using T [of 0]
    by (simp add: s0 load_whitelist_eq try_block_def sample_world_fetch p Server_sel
          del: refresh_loop.simps(2))
  have s2: "refresh_loop ?ws (Suc (Suc 0)) ?st =
              (?srv\<lparr>imei_whitelist := {PStr ''111'', PStr ''222''}\<rparr>,
               \<lparr>time = 606 + 1/2,
                scheduled = [\<lparr>deadline = 906 + 1/2, task = load_whitelist_coro\<rparr>]\<rparr>)"
    using T [of "Suc 0"]
    by (simp add: s1 load_whitelist_eq try_block_def offline_world_fetch Server_sel
          del: refresh_loop.simps(2))
  then show ?thesis
    by (simp add: numeral_2_eq_2 Server_def)
qed


end
